theory Spec2Isabelle
  imports Main "HOL-Library.Word"
begin

section \<open>Python values, exceptions and the outside world\<close>

text \<open>
  The module \<^verbatim>\<open>voice_assistant/transcription.py\<close> is a dispatcher over five
  speech-to-text backends and one placeholder. Every backend is an external
  collaborator (an SDK, an HTTP service, the file system, the process
  environment), so the model takes the answers of the collaborators as a
  parameter, the \<open>world\<close> of one call, and records what the code asks of them
  in a trace kept in the process state, next to the one global the module
  mutates, \<^verbatim>\<open>checked_fastwhisperapi\<close>.
\<close>

type_synonym byte = "8 word"

text \<open>
  What \<^verbatim>\<open>json.loads\<close> and \<^verbatim>\<open>response.json()\<close> build: \<^verbatim>\<open>None\<close>, \<^verbatim>\<open>bool\<close>,
  \<^verbatim>\<open>int\<close>, \<^verbatim>\<open>float\<close> (its IEEE-754 bits), \<^verbatim>\<open>str\<close>, \<^verbatim>\<open>list\<close> and \<^verbatim>\<open>dict\<close>
  with string keys. A parsed dict has each key once; it is kept as an
  association list and read with \<open>map_of\<close>.
\<close>

datatype json =
    JNull
  | JBool bool
  | JInt int
  | JFloat "64 word"
  | JStr string
  | JArr "json list"
  | JObj "(string \<times> json) list"

text \<open>
  Exceptions that derive from Python's \<^verbatim>\<open>Exception\<close>: the class, the text
  \<^verbatim>\<open>str(e)\<close> gives, and \<^verbatim>\<open>__context__\<close>, the exception that was being
  handled when this one was raised (\<^verbatim>\<open>None\<close> outside a handler). A
  \<^verbatim>\<open>raise\<close> inside an \<^verbatim>\<open>except\<close> block without \<^verbatim>\<open>from None\<close> sets it to
  the exception caught, and the caller can read it. The module's functions
  are taken to be called outside any handler of the caller.
  \<open>OtherError\<close> names a class of a third-party library.
  Signals that derive from \<^verbatim>\<open>BaseException\<close> only (\<^verbatim>\<open>KeyboardInterrupt\<close>,
  \<^verbatim>\<open>SystemExit\<close>) are not raised by the code or its collaborators and are
  outside the model.
\<close>

datatype exc_class =
    Exception
  | ValueError
  | KeyError
  | IndexError
  | TypeError
  | AttributeError
  | OSError
  | ConnectionError
  | JSONDecodeError
  | OtherError string

datatype py_exception =
  PyExc (exc_class: exc_class) (exc_str: string) (exc_context: "py_exception option")

type_synonym 'a result = "py_exception + 'a"

record http_response =
  status_code :: int
  json_body :: "json result"

record post_request =
  post_url :: string
  post_files :: "(string \<times> string \<times> byte list) list"
  post_data :: "(string \<times> json) list"
  post_headers :: "(string \<times> string) list"

record transcription_request =
  tr_api_key :: "string option"
  tr_model :: string
  tr_file :: "byte list"
  tr_language :: string

record prerecorded_options =
  opt_model :: string
  opt_smart_format :: bool

record deepgram_request =
  dg_api_key :: "string option"
  dg_version :: string
  dg_payload :: "(string \<times> byte list) list"
  dg_options :: prerecorded_options

datatype content_part = TextPart string | ImageUrlPart string

record chat_message =
  msg_role :: string
  msg_content :: "content_part list"

record completion_request =
  cr_model :: string
  cr_api_key :: "string option"
  cr_messages :: "chat_message list"

text \<open>
  The answers of the collaborators during one call. A \<open>result\<close> is \<open>Inl e\<close>
  when the collaborator raises \<open>e\<close>. \<open>deepgram_transcribe_file\<close> stands for
  the SDK call followed by \<^verbatim>\<open>json.loads(response.to_json())\<close>;
  \<open>open_rb\<close> gives the bytes behind a path, or what opening it raises;
  \<open>litellm_completion\<close> gives the \<^verbatim>\<open>message.content\<close> of every entry of
  \<^verbatim>\<open>response.choices\<close>.
\<close>

record world =
  environ :: "string \<Rightarrow> string option"
  open_rb :: "string \<Rightarrow> byte list result"
  requests_get :: "string \<Rightarrow> http_response result"
  requests_post :: "post_request \<Rightarrow> http_response result"
  openai_client :: "string option \<Rightarrow> unit result"
  openai_create :: "transcription_request \<Rightarrow> json result"
  groq_client :: "string option \<Rightarrow> unit result"
  groq_create :: "transcription_request \<Rightarrow> json result"
  deepgram_client :: "string option \<Rightarrow> unit result"
  deepgram_transcribe_file :: "deepgram_request \<Rightarrow> json result"
  litellm_completion :: "completion_request \<Rightarrow> json list result"

datatype io_event =
    HttpGet string
  | HttpPost post_request
  | FileOpen string
  | OpenAICreate transcription_request
  | GroqCreate transcription_request
  | DeepgramTranscribe deepgram_request
  | LitellmCompletion completion_request
  | LogError string
  | PrintExc py_exception

record pstate =
  checked_fastwhisperapi :: bool
  io_trace :: "io_event list"

definition emit :: "io_event \<Rightarrow> pstate \<Rightarrow> pstate" where
  "emit ev s = s\<lparr>io_trace := io_trace s @ [ev]\<rparr>"

text \<open>The module's globals as the interpreter leaves them after import.\<close>

definition fast_url :: string where
  "fast_url = ''http://localhost:8000''"

definition initial_state :: pstate where
  "initial_state = \<lparr>checked_fastwhisperapi = False, io_trace = []\<rparr>"

definition Fore_RED :: string where
  "Fore_RED = CHR 0x1B # ''[31m''"

definition Fore_RESET :: string where
  "Fore_RESET = CHR 0x1B # ''[39m''"

section \<open>Subscripts and \<^verbatim>\<open>dict.get\<close>\<close>

datatype subscript = Key string | Index int

definition type_name :: "json \<Rightarrow> string" where
  "type_name v = (case v of
      JNull \<Rightarrow> ''NoneType'' | JBool _ \<Rightarrow> ''bool'' | JInt _ \<Rightarrow> ''int''
    | JFloat _ \<Rightarrow> ''float'' | JStr _ \<Rightarrow> ''str'' | JArr _ \<Rightarrow> ''list''
    | JObj _ \<Rightarrow> ''dict'')"

definition py_repr :: "string \<Rightarrow> string" where
  "py_repr k = [CHR 0x27] @ k @ [CHR 0x27]"

fun dec_nat :: "nat \<Rightarrow> string" where
  "dec_nat n =
     (if n < 10 then [char_of (48 + n)]
      else dec_nat (n div 10) @ [char_of (48 + n mod 10)])"

definition py_repr_int :: "int \<Rightarrow> string" where
  "py_repr_int i = (if i < 0 then CHR ''-'' # dec_nat (nat (- i)) else dec_nat (nat i))"

text \<open>
  \<^verbatim>\<open>v[k]\<close>: a dict raises \<^verbatim>\<open>KeyError\<close> on a key it does not hold (an integer
  is never a key of a parsed JSON object); a list and a string take an
  integer, negative ones counting from the end, and raise \<^verbatim>\<open>IndexError\<close>
  out of range and \<^verbatim>\<open>TypeError\<close> on a string subscript; nothing else can be
  subscripted.
\<close>

definition seq_index :: "'a list \<Rightarrow> int \<Rightarrow> 'a option" where
  "seq_index xs i =
     (if i < 0 then
        (if - i \<le> int (length xs) then Some (xs ! nat (int (length xs) + i)) else None)
      else
        (if i < int (length xs) then Some (xs ! nat i) else None))"

definition py_getitem :: "json \<Rightarrow> subscript \<Rightarrow> json result" where
  "py_getitem v k = (case v of
      JObj kvs \<Rightarrow> (case k of
          Key name \<Rightarrow> (case map_of kvs name of
              Some x \<Rightarrow> Inr x
            | None \<Rightarrow> Inl (PyExc KeyError (py_repr name) None))
        | Index i \<Rightarrow> Inl (PyExc KeyError (py_repr_int i) None))
    | JArr xs \<Rightarrow> (case k of
          Key name \<Rightarrow> Inl (PyExc TypeError
                        ''list indices must be integers or slices, not str'' None)
        | Index i \<Rightarrow> (case seq_index xs i of
              Some x \<Rightarrow> Inr x
            | None \<Rightarrow> Inl (PyExc IndexError ''list index out of range'' None)))
    | JStr cs \<Rightarrow> (case k of
          Key name \<Rightarrow> Inl (PyExc TypeError ''string indices must be integers'' None)
        | Index i \<Rightarrow> (case seq_index cs i of
              Some c \<Rightarrow> Inr (JStr [c])
            | None \<Rightarrow> Inl (PyExc IndexError ''string index out of range'' None)))
    | _ \<Rightarrow> Inl (PyExc TypeError (py_repr (type_name v) @ '' object is not subscriptable'')
                None))"

text \<open>\<^verbatim>\<open>v.get(k, default)\<close>: only a dict has the method.\<close>

definition py_get :: "json \<Rightarrow> string \<Rightarrow> json \<Rightarrow> json result" where
  "py_get v k dflt = (case v of
      JObj kvs \<Rightarrow> (case map_of kvs k of Some x \<Rightarrow> Inr x | None \<Rightarrow> Inr dflt)
    | _ \<Rightarrow> Inl (PyExc AttributeError
              (py_repr (type_name v) @ '' object has no attribute '' @ py_repr ''get'')
              None))"

section \<open>The readiness gate\<close>

text \<open>
  \<^verbatim>\<open>check_fastwhisperapi\<close>: with the flag clear, one GET to the info endpoint;
  the \<^verbatim>\<open>try\<close> body raises on a status other than 200, the handler raises an
  \<^verbatim>\<open>Exception\<close> of the same text in place of whatever it caught (which
  becomes its context), and only a body that came through sets the flag.
  With the flag set the function does nothing.
\<close>

definition not_running :: "py_exception option \<Rightarrow> py_exception" where
  "not_running context = PyExc Exception ''FastWhisperAPI is not running'' context"

definition probe :: "world \<Rightarrow> string \<Rightarrow> unit result" where
  "probe w infopoint = (case requests_get w infopoint of
      Inl e \<Rightarrow> Inl e
    | Inr response \<Rightarrow>
        if status_code response \<noteq> 200 then Inl (not_running None) else Inr ())"

definition check_fastwhisperapi :: "world \<Rightarrow> pstate \<Rightarrow> unit result \<times> pstate" where
  "check_fastwhisperapi w s =
     (if \<not> checked_fastwhisperapi s then
        (let infopoint = fast_url @ ''/info'';
             s1 = emit (HttpGet infopoint) s
         in case probe w infopoint of
              Inl e \<Rightarrow> (Inl (not_running (Some e)), s1)
            | Inr u \<Rightarrow> (Inr (), s1\<lparr>checked_fastwhisperapi := True\<rparr>))
      else (Inr (), s))"

section \<open>Base64\<close>

text \<open>
  \<^verbatim>\<open>base64.b64encode\<close> is the standard encoding of RFC 4648: three bytes
  become four characters of the alphabet, six bits each, and a last group of
  one or two bytes is padded with \<^verbatim>\<open>=\<close>.
\<close>

definition b64_alphabet :: string where
  "b64_alphabet = ''ABCDEFGHIJKLMNOPQRSTUVWXYZabcdefghijklmnopqrstuvwxyz0123456789+/''"

definition b64_char :: "nat \<Rightarrow> char" where
  "b64_char n = b64_alphabet ! n"

fun b64encode :: "byte list \<Rightarrow> string" where
  "b64encode [] = []"
| "b64encode [a] =
     [b64_char (unat a div 4), b64_char (unat a mod 4 * 16), CHR ''='', CHR ''='']"
| "b64encode [a, b] =
     [b64_char (unat a div 4), b64_char (unat a mod 4 * 16 + unat b div 16),
      b64_char (unat b mod 16 * 4), CHR ''='']"
| "b64encode (a # b # c # rest) =
     [b64_char (unat a div 4), b64_char (unat a mod 4 * 16 + unat b div 16),
      b64_char (unat b mod 16 * 4 + unat c div 64), b64_char (unat c mod 64)]
     @ b64encode rest"

text \<open>
  The decoder of the same RFC, used to state the round trip: groups of four
  characters, padding only in the last group, and the bits under the padding
  zero. It rejects anything else.
\<close>

definition b64_index :: "char \<Rightarrow> nat option" where
  "b64_index c = map_of (zip b64_alphabet [0..<64]) c"

fun b64decode :: "string \<Rightarrow> byte list option" where
  "b64decode [] = Some []"
| "b64decode (c0 # c1 # c2 # c3 # rest) =
     (if rest = [] \<and> c2 = CHR ''='' \<and> c3 = CHR ''='' then
        (case (b64_index c0, b64_index c1) of
           (Some i0, Some i1) \<Rightarrow>
             if i1 mod 16 = 0 then Some [of_nat (i0 * 4 + i1 div 16)] else None
         | _ \<Rightarrow> None)
      else if rest = [] \<and> c3 = CHR ''='' then
        (case (b64_index c0, b64_index c1, b64_index c2) of
           (Some i0, Some i1, Some i2) \<Rightarrow>
             if i2 mod 4 = 0
             then Some [of_nat (i0 * 4 + i1 div 16), of_nat (i1 mod 16 * 16 + i2 div 4)]
             else None
         | _ \<Rightarrow> None)
      else
        (case (b64_index c0, b64_index c1, b64_index c2, b64_index c3) of
           (Some i0, Some i1, Some i2, Some i3) \<Rightarrow>
             (case b64decode rest of
                Some bs \<Rightarrow> Some (of_nat (i0 * 4 + i1 div 16)
                               # of_nat (i1 mod 16 * 16 + i2 div 4)
                               # of_nat (i2 mod 4 * 64 + i3) # bs)
              | None \<Rightarrow> None)
         | _ \<Rightarrow> None))"
| "b64decode _ = None"

section \<open>The adapters\<close>

definition transcribe_with_openai ::
  "world \<Rightarrow> pstate \<Rightarrow> string option \<Rightarrow> string \<Rightarrow> json result \<times> pstate" where
  "transcribe_with_openai w s api_key audio_file_path =
     (case openai_client w api_key of
        Inl e \<Rightarrow> (Inl e, s)
      | Inr client \<Rightarrow>
          (let s1 = emit (FileOpen audio_file_path) s
           in case open_rb w audio_file_path of
                Inl e \<Rightarrow> (Inl e, s1)
              | Inr audio_file \<Rightarrow>
                  (let req = \<lparr>tr_api_key = api_key, tr_model = ''whisper-1'',
                               tr_file = audio_file, tr_language = ''en''\<rparr>
                   in (openai_create w req, emit (OpenAICreate req) s1))))"

definition transcribe_with_groq ::
  "world \<Rightarrow> pstate \<Rightarrow> string option \<Rightarrow> string \<Rightarrow> json result \<times> pstate" where
  "transcribe_with_groq w s api_key audio_file_path =
     (case groq_client w api_key of
        Inl e \<Rightarrow> (Inl e, s)
      | Inr client \<Rightarrow>
          (let s1 = emit (FileOpen audio_file_path) s
           in case open_rb w audio_file_path of
                Inl e \<Rightarrow> (Inl e, s1)
              | Inr audio_file \<Rightarrow>
                  (let req = \<lparr>tr_api_key = api_key, tr_model = ''whisper-large-v3'',
                               tr_file = audio_file, tr_language = ''ta''\<rparr>
                   in (groq_create w req, emit (GroqCreate req) s1))))"

text \<open>
  \<^verbatim>\<open>data['results']['channels'][0]['alternatives'][0]['transcript']\<close>, one
  subscript after the other; the first that raises ends the chain.
\<close>

definition rbind :: "'a result \<Rightarrow> ('a \<Rightarrow> 'b result) \<Rightarrow> 'b result" where
  "rbind r f = (case r of Inl e \<Rightarrow> Inl e | Inr x \<Rightarrow> f x)"

definition deepgram_transcript :: "json \<Rightarrow> json result" where
  "deepgram_transcript data =
     rbind (py_getitem data (Key ''results'')) (\<lambda>results.
     rbind (py_getitem results (Key ''channels'')) (\<lambda>channels.
     rbind (py_getitem channels (Index 0)) (\<lambda>channel.
     rbind (py_getitem channel (Key ''alternatives'')) (\<lambda>alternatives.
     rbind (py_getitem alternatives (Index 0)) (\<lambda>alternative.
     py_getitem alternative (Key ''transcript''))))))"

definition prerecorded_request :: "string option \<Rightarrow> byte list \<Rightarrow> deepgram_request" where
  "prerecorded_request api_key buffer_data =
     \<lparr>dg_api_key = api_key, dg_version = ''1'',
      dg_payload = [(''buffer'', buffer_data)],
      dg_options = \<lparr>opt_model = ''nova-2'', opt_smart_format = True\<rparr>\<rparr>"

text \<open>The body of the \<^verbatim>\<open>try\<close> of \<^verbatim>\<open>_transcribe_with_deepgram\<close>.\<close>

definition deepgram_body ::
  "world \<Rightarrow> pstate \<Rightarrow> string option \<Rightarrow> string \<Rightarrow> json result \<times> pstate" where
  "deepgram_body w s api_key audio_file_path =
     (let s1 = emit (FileOpen audio_file_path) s
      in case open_rb w audio_file_path of
           Inl e \<Rightarrow> (Inl e, s1)
         | Inr buffer_data \<Rightarrow>
             (let req = prerecorded_request api_key buffer_data;
                  s2 = emit (DeepgramTranscribe req) s1
              in case deepgram_transcribe_file w req of
                   Inl e \<Rightarrow> (Inl e, s2)
                 | Inr data \<Rightarrow> (deepgram_transcript data, s2)))"

text \<open>The client is built before the \<^verbatim>\<open>try\<close>; the handler logs and re-raises.\<close>

definition transcribe_with_deepgram ::
  "world \<Rightarrow> pstate \<Rightarrow> string option \<Rightarrow> string \<Rightarrow> json result \<times> pstate" where
  "transcribe_with_deepgram w s api_key audio_file_path =
     (case deepgram_client w api_key of
        Inl e \<Rightarrow> (Inl e, s)
      | Inr deepgram \<Rightarrow>
          (case deepgram_body w s api_key audio_file_path of
             (Inl e, s1) \<Rightarrow>
               (Inl e, emit (LogError (Fore_RED @ ''Deepgram transcription error: ''
                                        @ exc_str e @ Fore_RESET)) s1)
           | (Inr transcript, s1) \<Rightarrow> (Inr transcript, s1)))"

definition fastwhisperapi_request :: "string \<Rightarrow> byte list \<Rightarrow> post_request" where
  "fastwhisperapi_request audio_file_path audio_file =
     \<lparr>post_url = fast_url @ ''/v1/transcriptions'',
      post_files = [(''file'', audio_file_path, audio_file)],
      post_data = [(''model'', JStr ''base''), (''language'', JStr ''en''),
                   (''initial_prompt'', JNull), (''vad_filter'', JBool True)],
      post_headers = [(''Authorization'', ''Bearer dummy_api_key'')]\<rparr>"

definition transcribe_with_fastwhisperapi ::
  "world \<Rightarrow> pstate \<Rightarrow> string \<Rightarrow> json result \<times> pstate" where
  "transcribe_with_fastwhisperapi w s audio_file_path =
     (case check_fastwhisperapi w s of
        (Inl e, s1) \<Rightarrow> (Inl e, s1)
      | (Inr u, s1) \<Rightarrow>
          (let s2 = emit (FileOpen audio_file_path) s1
           in case open_rb w audio_file_path of
                Inl e \<Rightarrow> (Inl e, s2)
              | Inr audio_file \<Rightarrow>
                  (let req = fastwhisperapi_request audio_file_path audio_file;
                       s3 = emit (HttpPost req) s2
                   in case requests_post w req of
                        Inl e \<Rightarrow> (Inl e, s3)
                      | Inr response \<Rightarrow>
                          (case json_body response of
                             Inl e \<Rightarrow> (Inl e, s3)
                           | Inr response_json \<Rightarrow>
                               (py_get response_json ''text''
                                  (JStr ''No text found in the response.''), s3)))))"

definition gemini_prompt :: string where
  "gemini_prompt = ''Just transcribe the Tamil audio. If no audio is detected, just say ''
     @ py_repr ''<empty>'' @ ''.''"

definition data_url_prefix :: string where
  "data_url_prefix = ''data:audio/mp3;base64,''"

definition gemini_request :: "string \<Rightarrow> string option \<Rightarrow> string \<Rightarrow> completion_request" where
  "gemini_request model api_key encoded_data =
     \<lparr>cr_model = model, cr_api_key = api_key,
      cr_messages =
        [\<lparr>msg_role = ''user'',
          msg_content = [TextPart gemini_prompt,
                         ImageUrlPart (data_url_prefix @ encoded_data)]\<rparr>]\<rparr>"

definition transcribe_with_gemini ::
  "world \<Rightarrow> pstate \<Rightarrow> string option \<Rightarrow> string \<Rightarrow> json result \<times> pstate" where
  "transcribe_with_gemini w s api_key audio_file_path =
     (case environ w ''GEMINI_MODEL'' of
        None \<Rightarrow> (Inl (PyExc KeyError (py_repr ''GEMINI_MODEL'') None), s)
      | Some model \<Rightarrow>
          (let s1 = emit (FileOpen audio_file_path) s
           in case open_rb w audio_file_path of
                Inl e \<Rightarrow> (Inl e, s1)
              | Inr audio_bytes \<Rightarrow>
                  (let encoded_data = b64encode audio_bytes;
                       req = gemini_request model api_key encoded_data;
                       s2 = emit (LitellmCompletion req) s1
                   in case litellm_completion w req of
                        Inl e \<Rightarrow> (Inl e, s2)
                      | Inr choices \<Rightarrow>
                          (case choices of
                             [] \<Rightarrow> (Inl (PyExc IndexError ''list index out of range'' None), s2)
                           | content # others \<Rightarrow> (Inr content, s2)))))"

section \<open>The dispatcher\<close>

text \<open>The body of the \<^verbatim>\<open>try\<close> of \<^verbatim>\<open>transcribe_audio\<close>.\<close>

definition transcribe_audio_body ::
  "world \<Rightarrow> pstate \<Rightarrow> string \<Rightarrow> string option \<Rightarrow> string \<Rightarrow> string option
     \<Rightarrow> json result \<times> pstate" where
  "transcribe_audio_body w s model api_key audio_file_path local_model_path =
     (if model = ''openai'' then transcribe_with_openai w s api_key audio_file_path
      else if model = ''groq'' then transcribe_with_groq w s api_key audio_file_path
      else if model = ''deepgram'' then transcribe_with_deepgram w s api_key audio_file_path
      else if model = ''gemini'' then transcribe_with_gemini w s api_key audio_file_path
      else if model = ''fastwhisperapi'' then transcribe_with_fastwhisperapi w s audio_file_path
      else if model = ''local'' then (Inr (JStr ''Transcribed text from local model''), s)
      else (Inl (PyExc ValueError ''Unsupported transcription model'' None), s))"

text \<open>
  The handler: log, print the traceback, and raise a new \<^verbatim>\<open>Exception\<close> while
  \<open>e\<close> is being handled, so \<open>e\<close> is its context.
\<close>

definition transcription_failed :: "py_exception \<Rightarrow> py_exception" where
  "transcription_failed e = PyExc Exception ''Error in transcribing audio'' (Some e)"

definition transcribe_audio ::
  "world \<Rightarrow> pstate \<Rightarrow> string \<Rightarrow> string option \<Rightarrow> string \<Rightarrow> string option
     \<Rightarrow> json result \<times> pstate" where
  "transcribe_audio w s model api_key audio_file_path local_model_path =
     (case transcribe_audio_body w s model api_key audio_file_path local_model_path of
        (Inl e, s1) \<Rightarrow>
          (Inl (transcription_failed e),
           emit (PrintExc e)
             (emit (LogError (Fore_RED @ ''Failed to transcribe audio: ''
                              @ exc_str e @ Fore_RESET)) s1))
      | (Inr text, s1) \<Rightarrow> (Inr text, s1))"

section \<open>A process: calls of the module's functions, one after the other\<close>

datatype call =
    CheckFastwhisperapi
  | TranscribeAudio string "string option" string "string option"

definition exec :: "world \<times> call \<Rightarrow> pstate \<Rightarrow> pstate" where
  "exec wc s = (case snd wc of
      CheckFastwhisperapi \<Rightarrow> snd (check_fastwhisperapi (fst wc) s)
    | TranscribeAudio model api_key path local_model_path \<Rightarrow>
        snd (transcribe_audio (fst wc) s model api_key path local_model_path))"

fun run :: "(world \<times> call) list \<Rightarrow> pstate \<Rightarrow> pstate" where
  "run [] s = s"
| "run (wc # rest) s = run rest (exec wc s)"

text \<open>The states a process goes through, the first one included.\<close>

fun states :: "(world \<times> call) list \<Rightarrow> pstate \<Rightarrow> pstate list" where
  "states [] s = [s]"
| "states (wc # rest) s = s # states rest (exec wc s)"

fun rises :: "bool list \<Rightarrow> nat" where
  "rises (a # b # rest) = (if \<not> a \<and> b then 1 else 0) + rises (b # rest)"
| "rises _ = 0"

fun falls :: "bool list \<Rightarrow> nat" where
  "falls (a # b # rest) = (if a \<and> \<not> b then 1 else 0) + falls (b # rest)"
| "falls _ = 0"

text \<open>A process that only calls \<^verbatim>\<open>check_fastwhisperapi\<close>, once per world of the list.\<close>

definition check_calls :: "world list \<Rightarrow> (world \<times> call) list" where
  "check_calls ws = map (\<lambda>w. (w, CheckFastwhisperapi)) ws"

definition probe_count :: "pstate \<Rightarrow> nat" where
  "probe_count s = length (filter (\<lambda>ev. ev = HttpGet (fast_url @ ''/info'')) (io_trace s))"

definition probe_ok :: "world \<Rightarrow> bool" where
  "probe_ok w = (case requests_get w (fast_url @ ''/info'') of
      Inl e \<Rightarrow> False
    | Inr response \<Rightarrow> status_code response = 200)"

text \<open>What a trace shows of the multimodal calls: the models asked for and the attachments sent.\<close>

fun requested_models :: "io_event list \<Rightarrow> string list" where
  "requested_models [] = []"
| "requested_models (LitellmCompletion req # evs) = cr_model req # requested_models evs"
| "requested_models (ev # evs) = requested_models evs"

fun image_urls :: "content_part list \<Rightarrow> string list" where
  "image_urls [] = []"
| "image_urls (ImageUrlPart url # parts) = url # image_urls parts"
| "image_urls (part # parts) = image_urls parts"

definition attachments :: "completion_request \<Rightarrow> string list" where
  "attachments req = concat (map (\<lambda>m. image_urls (msg_content m)) (cr_messages req))"

text \<open>The payload of a \<^verbatim>\<open>data:\<close> URL is what follows its first comma.\<close>

definition data_url_payload :: "string \<Rightarrow> string" where
  "data_url_payload url = drop 1 (dropWhile (\<lambda>c. c \<noteq> CHR '','') url)"

section \<open>The path of the Deepgram transcript, as the specification words it\<close>

text \<open>
  results \<rightarrow> channels[0] \<rightarrow> alternatives[0] \<rightarrow> transcript: a member of an
  object, the first element of an array. A level is missing when the value is
  not an object (an array), or the member (the first element) is not there.
\<close>

definition object_member :: "string \<Rightarrow> json \<Rightarrow> json option" where
  "object_member name v = (case v of JObj kvs \<Rightarrow> map_of kvs name | _ \<Rightarrow> None)"

definition first_element :: "json \<Rightarrow> json option" where
  "first_element v = (case v of JArr (x # xs) \<Rightarrow> Some x | _ \<Rightarrow> None)"

text \<open>What a computation returned, if it did not raise.\<close>

definition returned :: "'a result \<Rightarrow> 'a option" where
  "returned r = (case r of Inl e \<Rightarrow> None | Inr x \<Rightarrow> Some x)"

definition transcript_at_path :: "json \<Rightarrow> json option" where
  "transcript_at_path data =
     Option.bind (object_member ''results'' data) (\<lambda>results.
     Option.bind (object_member ''channels'' results) (\<lambda>channels.
     Option.bind (first_element channels) (\<lambda>channel.
     Option.bind (object_member ''alternatives'' channel) (\<lambda>alternatives.
     Option.bind (first_element alternatives) (\<lambda>alternative.
     object_member ''transcript'' alternative)))))"

section \<open>Sample worlds\<close>

text \<open>Nothing is reachable, nothing is configured, no file exists.\<close>

definition offline_world :: world where
  "offline_world =
     \<lparr>environ = (\<lambda>name. None),
      open_rb = (\<lambda>path. Inl (PyExc OSError ''No such file or directory'' None)),
      requests_get = (\<lambda>url. Inl (PyExc ConnectionError ''Connection refused'' None)),
      requests_post = (\<lambda>req. Inl (PyExc ConnectionError ''Connection refused'' None)),
      openai_client = (\<lambda>key. Inr ()),
      openai_create = (\<lambda>req. Inl (PyExc (OtherError ''APIConnectionError'')
                                  ''Connection error.'' None)),
      groq_client = (\<lambda>key. Inr ()),
      groq_create = (\<lambda>req. Inl (PyExc (OtherError ''APIConnectionError'')
                                  ''Connection error.'' None)),
      deepgram_client = (\<lambda>key. Inr ()),
      deepgram_transcribe_file = (\<lambda>req. Inl (PyExc ConnectionError ''Connection refused'' None)),
      litellm_completion = (\<lambda>req. Inl (PyExc ConnectionError ''Connection refused'' None))\<rparr>"

definition deepgram_reply :: json where
  "deepgram_reply =
     JObj [(''results'', JObj [(''channels'',
       JArr [JObj [(''alternatives'',
         JArr [JObj [(''transcript'', JStr ''hi there''), (''confidence'', JInt 1)]])]])])]"

text \<open>Every backend answers; every path holds the three bytes of \<^verbatim>\<open>Man\<close>.\<close>

definition online_world :: world where
  "online_world =
     \<lparr>environ = (\<lambda>name. if name = ''GEMINI_MODEL'' then Some ''gemini/gemini-1.5-flash-002''
                          else None),
      open_rb = (\<lambda>path. Inr [0x4D, 0x61, 0x6E]),
      requests_get = (\<lambda>url. Inr \<lparr>status_code = 200, json_body = Inr (JObj [])\<rparr>),
      requests_post = (\<lambda>req. Inr \<lparr>status_code = 200,
                                    json_body = Inr (JObj [(''text'', JStr ''hello'')])\<rparr>),
      openai_client = (\<lambda>key. Inr ()),
      openai_create = (\<lambda>req. Inr (JStr ''hello'')),
      groq_client = (\<lambda>key. Inr ()),
      groq_create = (\<lambda>req. Inr (JStr ''hello'')),
      deepgram_client = (\<lambda>key. Inr ()),
      deepgram_transcribe_file = (\<lambda>req. Inr deepgram_reply),
      litellm_completion = (\<lambda>req. Inr [JStr ''hello''])\<rparr>"

section \<open>The state and the trace under each function\<close>

lemma emit_flag [simp]: "checked_fastwhisperapi (emit ev s) = checked_fastwhisperapi s"
  by (simp add: emit_def)

lemma emit_trace [simp]: "io_trace (emit ev s) = io_trace s @ [ev]"
  by (simp add: emit_def)

lemma probe_count_emit:
  "probe_count (emit ev s) = probe_count s + (if ev = HttpGet (fast_url @ ''/info'') then 1 else 0)"
  by (simp add: probe_count_def)

lemma probe_count_flag [simp]:
  "probe_count (s\<lparr>checked_fastwhisperapi := b\<rparr>) = probe_count s"
  by (simp add: probe_count_def)

lemma check_when_checked:
  "checked_fastwhisperapi s \<Longrightarrow> check_fastwhisperapi w s = (Inr (), s)"
  by (simp add: check_fastwhisperapi_def)

lemma probe_ok_iff: "probe_ok w \<longleftrightarrow> probe w (fast_url @ ''/info'') = Inr ()"
  by (auto simp: probe_ok_def probe_def split: sum.splits)

lemma check_when_unchecked:
  "\<not> checked_fastwhisperapi s \<Longrightarrow>
   probe_count (snd (check_fastwhisperapi w s)) = Suc (probe_count s)
   \<and> checked_fastwhisperapi (snd (check_fastwhisperapi w s)) = probe_ok w"
  by (auto simp: check_fastwhisperapi_def Let_def probe_count_emit probe_ok_iff
      split: sum.splits)

lemma fastwhisperapi_when_checked:
  "checked_fastwhisperapi s \<Longrightarrow>
   checked_fastwhisperapi (snd (transcribe_with_fastwhisperapi w s p))
   \<and> probe_count (snd (transcribe_with_fastwhisperapi w s p)) = probe_count s"
  by (simp add: transcribe_with_fastwhisperapi_def check_when_checked Let_def probe_count_emit
      split: sum.splits)

lemma openai_keeps_gate:
  "checked_fastwhisperapi (snd (transcribe_with_openai w s k p)) = checked_fastwhisperapi s
   \<and> probe_count (snd (transcribe_with_openai w s k p)) = probe_count s"
  by (simp add: transcribe_with_openai_def Let_def probe_count_emit split: sum.splits)

lemma groq_keeps_gate:
  "checked_fastwhisperapi (snd (transcribe_with_groq w s k p)) = checked_fastwhisperapi s
   \<and> probe_count (snd (transcribe_with_groq w s k p)) = probe_count s"
  by (simp add: transcribe_with_groq_def Let_def probe_count_emit split: sum.splits)

lemma deepgram_keeps_gate:
  "checked_fastwhisperapi (snd (transcribe_with_deepgram w s k p)) = checked_fastwhisperapi s
   \<and> probe_count (snd (transcribe_with_deepgram w s k p)) = probe_count s"
  by (simp add: transcribe_with_deepgram_def deepgram_body_def Let_def probe_count_emit
      split: sum.splits prod.splits)

lemma gemini_keeps_gate:
  "checked_fastwhisperapi (snd (transcribe_with_gemini w s k p)) = checked_fastwhisperapi s
   \<and> probe_count (snd (transcribe_with_gemini w s k p)) = probe_count s"
  by (simp add: transcribe_with_gemini_def Let_def probe_count_emit
      split: sum.splits option.splits list.splits)

lemma body_when_checked:
  "checked_fastwhisperapi s \<Longrightarrow>
   checked_fastwhisperapi (snd (transcribe_audio_body w s m k p l))
   \<and> probe_count (snd (transcribe_audio_body w s m k p l)) = probe_count s"
  by (simp add: transcribe_audio_body_def fastwhisperapi_when_checked openai_keeps_gate
      groq_keeps_gate deepgram_keeps_gate gemini_keeps_gate)

lemma transcribe_audio_when_checked:
  "checked_fastwhisperapi s \<Longrightarrow>
   checked_fastwhisperapi (snd (transcribe_audio w s m k p l))
   \<and> probe_count (snd (transcribe_audio w s m k p l)) = probe_count s"
  using body_when_checked [of s w m k p l]
  by (auto simp: transcribe_audio_def probe_count_emit split: prod.splits sum.splits)

lemma exec_when_checked:
  "checked_fastwhisperapi s \<Longrightarrow>
   checked_fastwhisperapi (exec wc s) \<and> probe_count (exec wc s) = probe_count s"
  by (cases wc)
     (auto simp: exec_def check_when_checked transcribe_audio_when_checked split: call.splits)

lemma run_when_checked:
  "checked_fastwhisperapi s \<Longrightarrow>
   checked_fastwhisperapi (run cs s) \<and> probe_count (run cs s) = probe_count s"
  by (induction cs arbitrary: s) (simp_all add: exec_when_checked)

lemma states_head: "\<exists>rest. states cs s = s # rest"
  by (cases cs) simp_all

lemma rises_when_checked:
  "checked_fastwhisperapi s \<Longrightarrow> rises (map checked_fastwhisperapi (states cs s)) = 0"
proof (induction cs arbitrary: s)
  case Nil
  then show ?case by simp
next
  case (Cons wc cs)
  obtain rest where r: "states cs (exec wc s) = exec wc s # rest"
    using states_head by blast
  from Cons.IH [of "exec wc s"] Cons.prems exec_when_checked [of s wc] r
  show ?case by simp
qed

lemma falls_states: "falls (map checked_fastwhisperapi (states cs s)) = 0"
proof (induction cs arbitrary: s)
  case Nil
  then show ?case by simp
next
  case (Cons wc cs)
  obtain rest where r: "states cs (exec wc s) = exec wc s # rest"
    using states_head by blast
  from Cons.IH [of "exec wc s"] exec_when_checked [of s wc] r
  show ?case by auto
qed

lemma rises_states: "rises (map checked_fastwhisperapi (states cs s)) \<le> 1"
proof (induction cs arbitrary: s)
  case Nil
  then show ?case by simp
next
  case (Cons wc cs)
  obtain rest where r: "states cs (exec wc s) = exec wc s # rest"
    using states_head by blast
  show ?case
  proof (cases "checked_fastwhisperapi (exec wc s)")
    case True
    with rises_when_checked [of "exec wc s" cs] r show ?thesis by simp
  next
    case False
    with Cons.IH [of "exec wc s"] r show ?thesis by simp
  qed
qed

lemma run_checks_unchecked:
  "\<not> checked_fastwhisperapi s \<Longrightarrow>
   probe_count (run (check_calls ws) s)
     = probe_count s + min (length ws) (Suc (length (takeWhile (\<lambda>w. \<not> probe_ok w) ws)))"
proof (induction ws arbitrary: s)
  case Nil
  then show ?case by (simp add: check_calls_def)
next
  case (Cons w ws)
  let ?s' = "snd (check_fastwhisperapi w s)"
  have step: "run (check_calls (w # ws)) s = run (check_calls ws) ?s'"
    by (simp add: check_calls_def exec_def)
  show ?case
  proof (cases "probe_ok w")
    case True
    with check_when_unchecked [OF Cons.prems, of w] run_when_checked [of ?s' "check_calls ws"] step
    show ?thesis by simp
  next
    case False
    with check_when_unchecked [OF Cons.prems, of w] Cons.IH [of ?s'] step
    show ?thesis by simp
  qed
qed

section \<open>Subscript chains against the path\<close>

lemma returned_key:
  "returned (rbind (py_getitem v (Key name)) f)
     = Option.bind (object_member name v) (\<lambda>x. returned (f x))"
  by (auto simp: returned_def rbind_def py_getitem_def object_member_def
      split: json.splits option.splits)

lemma returned_first_key:
  "returned (rbind (py_getitem v (Index 0)) (\<lambda>x. rbind (py_getitem x (Key name)) f))
     = Option.bind (first_element v)
         (\<lambda>x. Option.bind (object_member name x) (\<lambda>y. returned (f y)))"
  by (auto simp: returned_def rbind_def py_getitem_def first_element_def object_member_def
      seq_index_def split: json.splits option.splits list.splits)

lemma returned_first_last_key:
  "returned (rbind (py_getitem v (Index 0)) (\<lambda>x. py_getitem x (Key name)))
     = Option.bind (first_element v) (object_member name)"
  by (auto simp: returned_def rbind_def py_getitem_def first_element_def object_member_def
      seq_index_def split: json.splits option.splits list.splits)

lemma returned_deepgram_transcript:
  "returned (deepgram_transcript data) = transcript_at_path data"
  by (simp add: deepgram_transcript_def transcript_at_path_def returned_key
      returned_first_key returned_first_last_key cong: Option.bind_cong)

lemma returned_Some: "returned r = Some x \<longleftrightarrow> r = Inr x"
  by (auto simp: returned_def split: sum.splits)

lemma returned_None: "returned r = None \<longleftrightarrow> isl r"
  by (auto simp: returned_def split: sum.splits)

section \<open>Base64 decodes what it encoded\<close>

lemma b64_index_char: "n < 64 \<Longrightarrow> b64_index (b64_char n) = Some n"
proof -
  have "\<forall>n \<in> set [0..<64]. b64_index (b64_char n) = Some n"
    by code_simp
  then show "n < 64 \<Longrightarrow> b64_index (b64_char n) = Some n" by simp
qed

lemma b64_char_not_pad: "n < 64 \<Longrightarrow> b64_char n \<noteq> CHR ''=''"
proof -
  have "\<forall>n \<in> set [0..<64]. b64_char n \<noteq> CHR ''=''"
    by code_simp
  then show "n < 64 \<Longrightarrow> b64_char n \<noteq> CHR ''=''" by simp
qed

lemma unat_byte: "unat (a :: byte) < 256"
  using unsigned_less [of a, where ?'a = nat] by simp

lemma sextet_bounds:
  fixes a b c :: nat
  assumes "a < 256" "b < 256" "c < 256"
  shows "a div 4 < 64" "a mod 4 * 16 + b div 16 < 64"
    "b mod 16 * 4 + c div 64 < 64" "c mod 64 < 64" "a mod 4 * 16 < 64" "b mod 16 * 4 < 64"
  using assms by auto

lemma sextet_join:
  fixes a b c :: nat
  assumes "a < 256" "b < 256" "c < 256"
  shows "a div 4 * 4 + (a mod 4 * 16 + b div 16) div 16 = a"
    and "(a mod 4 * 16 + b div 16) mod 16 * 16 + (b mod 16 * 4 + c div 64) div 4 = b"
    and "(b mod 16 * 4 + c div 64) mod 4 * 64 + c mod 64 = c"
  using assms by auto

lemma sextet_join_pad:
  fixes a b :: nat
  assumes "a < 256" "b < 256"
  shows "a div 4 * 4 + (a mod 4 * 16) div 16 = a"
    and "(a mod 4 * 16) mod 16 = 0"
    and "(a mod 4 * 16 + b div 16) mod 16 * 16 + (b mod 16 * 4) div 4 = b"
    and "(b mod 16 * 4) mod 4 = 0"
  using assms by auto

lemma b64decode_b64encode: "b64decode (b64encode bs) = Some bs"
proof (induction bs rule: b64encode.induct)
  case 1
  show ?case by simp
next
  case (2 a)
  show ?case
    using unat_byte [of a]
    by (simp add: b64_index_char sextet_bounds sextet_join_pad)
next
  case (3 a b)
  show ?case
    using unat_byte [of a] unat_byte [of b]
    by (simp add: b64_index_char b64_char_not_pad sextet_bounds sextet_join_pad sextet_join)
next
  case (4 a b c rest)
  then show ?case
    using unat_byte [of a] unat_byte [of b] unat_byte [of c]
    by (simp add: b64_index_char b64_char_not_pad sextet_bounds sextet_join)
qed

lemma payload_of_data_url: "data_url_payload (data_url_prefix @ encoded) = encoded"
  by (simp add: data_url_payload_def data_url_prefix_def)

lemma requested_models_append:
  "requested_models (xs @ ys) = requested_models xs @ requested_models ys"
  by (induction xs rule: requested_models.induct) simp_all

section \<open>The claims\<close>

text \<open>
  C1, as stated: whatever the adapter logic raises, \<^verbatim>\<open>transcribe_audio\<close> raises
  one uniform error, the same whatever the cause, so that the caller cannot
  tell the cause. The error is raised inside the handler, so the cause is its
  \<^verbatim>\<open>__context__\<close>: a missing \<^verbatim>\<open>GEMINI_MODEL\<close> and an unsupported provider
  both fail, and the two errors raised differ.
\<close>

theorem transcribe_audio_cause_visible_counterexample:
  "isl (fst (transcribe_audio offline_world initial_state ''gemini'' None ''sample.wav'' None))
   \<and> isl (fst (transcribe_audio offline_world initial_state ''fastwhisper'' None
                 ''sample.wav'' None))
   \<and> fst (transcribe_audio offline_world initial_state ''gemini'' None ''sample.wav'' None)
     \<noteq> fst (transcribe_audio offline_world initial_state ''fastwhisper'' None
              ''sample.wav'' None)"
  by (simp add: transcribe_audio_def transcribe_audio_body_def transcribe_with_gemini_def
      transcription_failed_def offline_world_def)

text \<open>
  C1, amended. Whatever the body of the \<^verbatim>\<open>try\<close> of \<^verbatim>\<open>transcribe_audio\<close>
  raises, \<^verbatim>\<open>transcribe_audio\<close> raises an \<^verbatim>\<open>Exception\<close> with the message
  \<^verbatim>\<open>Error in transcribing audio\<close>: class and message are the same for any two
  failing calls, whatever their providers, inputs and causes. The exception
  caught stays attached to the one raised as its context.
\<close>

theorem transcribe_audio_uniform_class_and_message:
  "fst (transcribe_audio_body w s model api_key path lmp) = Inl e \<Longrightarrow>
   fst (transcribe_audio_body w' s' model' api_key' path' lmp') = Inl e' \<Longrightarrow>
   fst (transcribe_audio w s model api_key path lmp)
     = Inl (PyExc Exception ''Error in transcribing audio'' (Some e))
   \<and> fst (transcribe_audio w' s' model' api_key' path' lmp')
     = Inl (PyExc Exception ''Error in transcribing audio'' (Some e'))"
  by (auto simp: transcribe_audio_def transcription_failed_def split: prod.splits sum.splits)

theorem transcribe_audio_uniform_class_and_message_witness:
  "fst (transcribe_audio offline_world initial_state ''fastwhisperapi'' None ''sample.wav'' None)
     = Inl (PyExc Exception ''Error in transcribing audio''
              (Some (PyExc Exception ''FastWhisperAPI is not running''
                 (Some (PyExc ConnectionError ''Connection refused'' None)))))
   \<and> fst (transcribe_audio offline_world initial_state ''gemini'' None ''sample.wav'' None)
     = Inl (PyExc Exception ''Error in transcribing audio''
              (Some (PyExc KeyError (py_repr ''GEMINI_MODEL'') None)))"
  using transcribe_audio_uniform_class_and_message
      [of offline_world initial_state "''fastwhisperapi''" None "''sample.wav''" None
        "PyExc Exception ''FastWhisperAPI is not running''
           (Some (PyExc ConnectionError ''Connection refused'' None))"
        offline_world initial_state "''gemini''" None "''sample.wav''" None
        "PyExc KeyError (py_repr ''GEMINI_MODEL'') None"]
  by (simp add: transcribe_audio_body_def transcribe_with_fastwhisperapi_def
      transcribe_with_gemini_def check_fastwhisperapi_def probe_def not_running_def
      offline_world_def initial_state_def Let_def)

text \<open>
  C2. A provider string outside the six known ones makes \<^verbatim>\<open>transcribe_audio\<close>
  raise the generic error: nothing is returned, and the only effects are the
  log line and the traceback of the \<^verbatim>\<open>ValueError\<close>, so no adapter ran.
\<close>

theorem unsupported_provider_raises:
  "model \<notin> {''openai'', ''groq'', ''deepgram'', ''gemini'', ''fastwhisperapi'', ''local''} \<Longrightarrow>
   transcribe_audio w s model api_key audio_file_path local_model_path
     = (Inl (PyExc Exception ''Error in transcribing audio''
               (Some (PyExc ValueError ''Unsupported transcription model'' None))),
        s\<lparr>io_trace := io_trace s @
            [LogError (Fore_RED
                @ ''Failed to transcribe audio: Unsupported transcription model''
                @ Fore_RESET),
             PrintExc (PyExc ValueError ''Unsupported transcription model'' None)]\<rparr>)"
  by (simp add: transcribe_audio_def transcribe_audio_body_def transcription_failed_def emit_def)

theorem unsupported_provider_raises_witness:
  "transcribe_audio online_world initial_state ''fastwhisper'' None ''sample.wav'' None
     = (Inl (PyExc Exception ''Error in transcribing audio''
               (Some (PyExc ValueError ''Unsupported transcription model'' None))),
        initial_state\<lparr>io_trace :=
            [LogError (Fore_RED
                @ ''Failed to transcribe audio: Unsupported transcription model''
                @ Fore_RESET),
             PrintExc (PyExc ValueError ''Unsupported transcription model'' None)]\<rparr>)"
  using unsupported_provider_raises
      [of "''fastwhisper''" online_world initial_state None "''sample.wav''" None]
  by (simp add: initial_state_def)

text \<open>
  C3. The flag \<^verbatim>\<open>checked_fastwhisperapi\<close> starts false; along any process it
  rises at most once and never falls; and from a state where it is set,
  \<^verbatim>\<open>check_fastwhisperapi\<close> returns at once leaving the state as it was, and no
  later call of the module adds a GET of the info endpoint to the trace.
\<close>

theorem readiness_flag_one_way:
  "\<not> checked_fastwhisperapi initial_state
   \<and> rises (map checked_fastwhisperapi (states cs initial_state)) \<le> 1
   \<and> falls (map checked_fastwhisperapi (states cs s)) = 0
   \<and> (checked_fastwhisperapi s \<longrightarrow>
        check_fastwhisperapi w s = (Inr (), s)
        \<and> checked_fastwhisperapi (run cs s)
        \<and> probe_count (run cs s) = probe_count s)"
  using rises_states [of cs initial_state] falls_states [of cs s]
    check_when_checked [of s w] run_when_checked [of s cs]
  by (simp add: initial_state_def)

theorem readiness_flag_one_way_witness:
  "checked_fastwhisperapi (run [(online_world, CheckFastwhisperapi)] initial_state)
   \<and> probe_count
       (run [(offline_world, CheckFastwhisperapi),
             (offline_world, TranscribeAudio ''fastwhisperapi'' None ''sample.wav'' None)]
          (run [(online_world, CheckFastwhisperapi)] initial_state)) = 1"
  using readiness_flag_one_way
      [of "[(offline_world, CheckFastwhisperapi),
            (offline_world, TranscribeAudio ''fastwhisperapi'' None ''sample.wav'' None)]"
        "run [(online_world, CheckFastwhisperapi)] initial_state" offline_world]
  by (simp add: exec_def check_fastwhisperapi_def probe_def online_world_def
      initial_state_def probe_count_def emit_def Let_def)

text \<open>
  C4, as stated: N calls of \<^verbatim>\<open>check_fastwhisperapi\<close> probe at most once in
  total, failures included. Two calls while the service is down probe twice.
\<close>

theorem probe_repeated_after_failure_counterexample:
  "\<not> probe_count (run (check_calls [offline_world, offline_world]) initial_state) \<le> 1"
  by (simp add: check_calls_def exec_def check_fastwhisperapi_def initial_state_def
      probe_def offline_world_def probe_count_def emit_def Let_def)

text \<open>
  C4, amended. In a fresh process, N calls of \<^verbatim>\<open>check_fastwhisperapi\<close> probe
  once per call up to and including the first call whose probe gets a 200,
  and never after it: the number of probes is the number of leading failures
  plus one, or N when every probe fails.
\<close>

theorem probes_until_first_success:
  "probe_count (run (check_calls ws) initial_state)
     = min (length ws) (Suc (length (takeWhile (\<lambda>w. \<not> probe_ok w) ws)))"
  using run_checks_unchecked [of initial_state ws]
  by (simp add: initial_state_def probe_count_def)

text \<open>
  C5. The service's reply is a JSON body with an optional \<^verbatim>\<open>text\<close> field, that
  is, a JSON object. When the gate lets the call through, the file opens and
  the service answers with such an object, the adapter returns the value of
  the \<^verbatim>\<open>text\<close> field when the object has one (\<^verbatim>\<open>{"text": "hello"}\<close> gives
  \<^verbatim>\<open>hello\<close>) and the literal \<^verbatim>\<open>No text found in the response.\<close> when it has
  none; it does not raise.
\<close>

theorem fastwhisperapi_text_or_fallback:
  "fst (check_fastwhisperapi w s) = Inr () \<Longrightarrow>
   open_rb w audio_file_path = Inr audio_file \<Longrightarrow>
   requests_post w (fastwhisperapi_request audio_file_path audio_file) = Inr response \<Longrightarrow>
   json_body response = Inr (JObj kvs) \<Longrightarrow>
   fst (transcribe_with_fastwhisperapi w s audio_file_path)
     = Inr (case map_of kvs ''text'' of
              Some text \<Rightarrow> text
            | None \<Rightarrow> JStr ''No text found in the response.'')"
  by (cases "check_fastwhisperapi w s")
     (simp add: transcribe_with_fastwhisperapi_def Let_def py_get_def split: option.splits)

theorem fastwhisperapi_text_or_fallback_witness:
  "fst (transcribe_with_fastwhisperapi online_world initial_state ''sample.wav'')
     = Inr (JStr ''hello'')
   \<and> fst (transcribe_with_fastwhisperapi
            (online_world\<lparr>requests_post :=
               (\<lambda>req. Inr \<lparr>status_code = 200, json_body = Inr (JObj [])\<rparr>)\<rparr>)
            initial_state ''sample.wav'')
     = Inr (JStr ''No text found in the response.'')"
  using fastwhisperapi_text_or_fallback
      [of online_world initial_state "''sample.wav''" "[0x4D, 0x61, 0x6E]"
        "\<lparr>status_code = 200, json_body = Inr (JObj [(''text'', JStr ''hello'')])\<rparr>"
        "[(''text'', JStr ''hello'')]"]
    fastwhisperapi_text_or_fallback
      [of "online_world\<lparr>requests_post :=
               (\<lambda>req. Inr \<lparr>status_code = 200, json_body = Inr (JObj [])\<rparr>)\<rparr>"
        initial_state "''sample.wav''" "[0x4D, 0x61, 0x6E]"
        "\<lparr>status_code = 200, json_body = Inr (JObj [])\<rparr>" "[]"]
  by (simp add: check_fastwhisperapi_def initial_state_def probe_def online_world_def Let_def)

text \<open>
  C6. When the Deepgram client is built, the file is read and the backend
  answers with the JSON value \<open>data\<close>: if every level of
  results \<rightarrow> channels[0] \<rightarrow> alternatives[0] \<rightarrow> transcript is there, the adapter
  and the dispatcher return exactly the value at the end of the path; if a
  level is missing, the adapter raises and the dispatcher raises the generic
  error. No text is put in place of a missing level.
\<close>

theorem deepgram_transcript_or_error:
  "deepgram_client w api_key = Inr () \<Longrightarrow>
   open_rb w audio_file_path = Inr buffer_data \<Longrightarrow>
   deepgram_transcribe_file w (prerecorded_request api_key buffer_data) = Inr data \<Longrightarrow>
   (case transcript_at_path data of
      Some transcript \<Rightarrow>
        fst (transcribe_with_deepgram w s api_key audio_file_path) = Inr transcript
        \<and> fst (transcribe_audio w s ''deepgram'' api_key audio_file_path local_model_path)
            = Inr transcript
    | None \<Rightarrow>
        (\<exists>e. fst (transcribe_with_deepgram w s api_key audio_file_path) = Inl e
           \<and> fst (transcribe_audio w s ''deepgram'' api_key audio_file_path local_model_path)
               = Inl (PyExc Exception ''Error in transcribing audio'' (Some e))))"
proof -
  assume a: "deepgram_client w api_key = Inr ()"
    "open_rb w audio_file_path = Inr buffer_data"
    "deepgram_transcribe_file w (prerecorded_request api_key buffer_data) = Inr data"
  have body: "fst (deepgram_body w s api_key audio_file_path) = deepgram_transcript data"
    using a by (simp add: deepgram_body_def Let_def)
  have adapter: "fst (transcribe_with_deepgram w s api_key audio_file_path)
      = deepgram_transcript data"
    using a body
    by (cases "deepgram_body w s api_key audio_file_path")
       (auto simp: transcribe_with_deepgram_def split: sum.splits)
  have disp: "fst (transcribe_audio w s ''deepgram'' api_key audio_file_path local_model_path)
      = (case deepgram_transcript data of
           Inl e \<Rightarrow> Inl (PyExc Exception ''Error in transcribing audio'' (Some e))
         | Inr t \<Rightarrow> Inr t)"
    using adapter
    by (cases "transcribe_with_deepgram w s api_key audio_file_path")
       (auto simp: transcribe_audio_def transcribe_audio_body_def transcription_failed_def
          split: sum.splits)
  show ?thesis
  proof (cases "transcript_at_path data")
    case None
    then have "isl (deepgram_transcript data)"
      using returned_deepgram_transcript [of data] by (simp add: returned_None)
    then obtain e where "deepgram_transcript data = Inl e"
      by (auto simp: isl_def)
    with None adapter disp show ?thesis by simp
  next
    case (Some t)
    then have "deepgram_transcript data = Inr t"
      using returned_deepgram_transcript [of data] by (simp add: returned_Some)
    with Some adapter disp show ?thesis by simp
  qed
qed

theorem deepgram_transcript_or_error_witness:
  "fst (transcribe_with_deepgram online_world initial_state None ''sample.wav'')
     = Inr (JStr ''hi there'')
   \<and> fst (transcribe_audio online_world initial_state ''deepgram'' None ''sample.wav'' None)
     = Inr (JStr ''hi there'')
   \<and> fst (transcribe_audio
            (online_world\<lparr>deepgram_transcribe_file := (\<lambda>req. Inr (JObj []))\<rparr>)
            initial_state ''deepgram'' None ''sample.wav'' None)
     = Inl (PyExc Exception ''Error in transcribing audio''
              (Some (PyExc KeyError (py_repr ''results'') None)))"
proof -
  let ?w = "online_world\<lparr>deepgram_transcribe_file := (\<lambda>req. Inr (JObj []))\<rparr>"
  have complete:
    "fst (transcribe_with_deepgram online_world initial_state None ''sample.wav'')
       = Inr (JStr ''hi there'')
     \<and> fst (transcribe_audio online_world initial_state ''deepgram'' None ''sample.wav'' None)
       = Inr (JStr ''hi there'')"
    using deepgram_transcript_or_error
        [of online_world None "''sample.wav''" "[0x4D, 0x61, 0x6E]" deepgram_reply
          initial_state None]
    by (simp add: online_world_def transcript_at_path_def deepgram_reply_def
        object_member_def first_element_def)
  have missing:
    "\<exists>e. fst (transcribe_with_deepgram ?w initial_state None ''sample.wav'') = Inl e
       \<and> fst (transcribe_audio ?w initial_state ''deepgram'' None ''sample.wav'' None)
           = Inl (PyExc Exception ''Error in transcribing audio'' (Some e))"
    using deepgram_transcript_or_error
        [of ?w None "''sample.wav''" "[0x4D, 0x61, 0x6E]" "JObj []" initial_state None]
    by (simp add: online_world_def transcript_at_path_def object_member_def)
  have adapter:
    "fst (transcribe_with_deepgram ?w initial_state None ''sample.wav'')
       = Inl (PyExc KeyError (py_repr ''results'') None)"
    by (simp add: transcribe_with_deepgram_def deepgram_body_def deepgram_transcript_def
        rbind_def py_getitem_def online_world_def Let_def)
  from missing adapter complete show ?thesis by auto
qed

text \<open>
  C7. When the model is configured and the audio file is read, the adapter
  opens the file and sends one completion request; its one attachment is the
  \<^verbatim>\<open>data:audio/mp3;base64,\<close> URL of the base64 encoding of the bytes read, and
  decoding the payload of that URL gives those bytes back.
\<close>

theorem gemini_attachment_round_trip:
  "environ w ''GEMINI_MODEL'' = Some model \<Longrightarrow>
   open_rb w audio_file_path = Inr audio_bytes \<Longrightarrow>
   (\<exists>req. io_trace (snd (transcribe_with_gemini w s api_key audio_file_path))
            = io_trace s @ [FileOpen audio_file_path, LitellmCompletion req]
        \<and> attachments req = [data_url_prefix @ b64encode audio_bytes]
        \<and> map (\<lambda>url. b64decode (data_url_payload url)) (attachments req)
            = [Some audio_bytes])"
  by (rule exI [of _ "gemini_request model api_key (b64encode audio_bytes)"])
     (simp add: transcribe_with_gemini_def Let_def attachments_def gemini_request_def
        payload_of_data_url b64decode_b64encode split: sum.splits list.splits)

theorem gemini_attachment_round_trip_witness:
  "\<exists>req. io_trace (snd (transcribe_with_gemini online_world initial_state None
                          ''test_cropped.mp3''))
            = [FileOpen ''test_cropped.mp3'', LitellmCompletion req]
        \<and> attachments req = [''data:audio/mp3;base64,TWFu'']
        \<and> map (\<lambda>url. b64decode (data_url_payload url)) (attachments req)
            = [Some [0x4D, 0x61, 0x6E]]"
  using gemini_attachment_round_trip
      [of online_world "''gemini/gemini-1.5-flash-002''" "''test_cropped.mp3''"
        "[0x4D, 0x61, 0x6E]" initial_state None]
  by (simp add: online_world_def initial_state_def data_url_prefix_def b64_char_def
      b64_alphabet_def)

text \<open>
  C8. With the provider \<^verbatim>\<open>local\<close>, \<^verbatim>\<open>transcribe_audio\<close> returns the literal
  \<^verbatim>\<open>Transcribed text from local model\<close> whatever the other arguments and the
  world are, and leaves the state as it was: nothing is added to the trace,
  so no file, backend or log is touched, and nothing is raised.
\<close>

theorem local_placeholder_constant:
  "transcribe_audio w s ''local'' api_key audio_file_path local_model_path
     = (Inr (JStr ''Transcribed text from local model''), s)"
  by (simp add: transcribe_audio_def transcribe_audio_body_def)

text \<open>
  C9. While \<^verbatim>\<open>GEMINI_MODEL\<close> is not in the environment, the adapter raises
  \<^verbatim>\<open>KeyError('GEMINI_MODEL')\<close> before any effect and the dispatcher raises
  the generic error. While it is set, the only model a call with provider
  \<^verbatim>\<open>gemini\<close> asks for is the configured one, whatever the credential, the
  path and \<^verbatim>\<open>local_model_path\<close> are (and none when the file cannot be read).
\<close>

theorem gemini_model_from_environment:
  "(environ w ''GEMINI_MODEL'' = None \<longrightarrow>
      transcribe_with_gemini w s api_key audio_file_path
        = (Inl (PyExc KeyError (py_repr ''GEMINI_MODEL'') None), s)
      \<and> fst (transcribe_audio w s ''gemini'' api_key audio_file_path local_model_path)
        = Inl (PyExc Exception ''Error in transcribing audio''
                 (Some (PyExc KeyError (py_repr ''GEMINI_MODEL'') None))))
   \<and> (environ w ''GEMINI_MODEL'' = Some model \<longrightarrow>
      requested_models (io_trace (snd (transcribe_audio w s ''gemini'' api_key audio_file_path
                                         local_model_path)))
        = requested_models (io_trace s)
          @ (if isl (open_rb w audio_file_path) then [] else [model]))"
  by (auto simp: transcribe_audio_def transcribe_audio_body_def transcribe_with_gemini_def
      Let_def transcription_failed_def requested_models_append gemini_request_def
      split: sum.splits list.splits prod.splits)

theorem gemini_model_from_environment_witness:
  "transcribe_with_gemini offline_world initial_state (Some ''key'') ''test_cropped.mp3''
     = (Inl (PyExc KeyError (py_repr ''GEMINI_MODEL'') None), initial_state)
   \<and> fst (transcribe_audio offline_world initial_state ''gemini'' (Some ''key'')
            ''test_cropped.mp3'' None)
     = Inl (PyExc Exception ''Error in transcribing audio''
              (Some (PyExc KeyError (py_repr ''GEMINI_MODEL'') None)))
   \<and> requested_models (io_trace (snd (transcribe_audio online_world initial_state ''gemini''
            (Some ''key'') ''test_cropped.mp3'' None)))
     = [''gemini/gemini-1.5-flash-002'']"
  using gemini_model_from_environment
      [of offline_world initial_state "Some ''key''" "''test_cropped.mp3''" None]
    gemini_model_from_environment
      [of online_world initial_state "Some ''key''" "''test_cropped.mp3''" None
        "''gemini/gemini-1.5-flash-002''"]
  by (simp add: offline_world_def online_world_def initial_state_def)

text \<open>
  C10. \<^verbatim>\<open>local_model_path\<close> is never read: two calls of \<^verbatim>\<open>transcribe_audio\<close>
  that differ only in it give the same result (the text returned or the error
  raised) and the same state and trace.
\<close>

theorem local_model_path_never_read:
  "transcribe_audio w s model api_key audio_file_path local_model_path
     = transcribe_audio w s model api_key audio_file_path local_model_path'"
  by (simp add: transcribe_audio_def transcribe_audio_body_def)

end
